theory Spec2Isabelle
  imports Complex_Main
begin

section \<open>Python string primitives used by radiology\_impressions.py\<close>

text \<open>
  Python \<open>str\<close> values are modelled as \<open>string\<close>: a list of 8-bit characters, each read
  as the code point of the same number (0 to 255). Every literal of the program is ASCII.
  Code points above 255 are not represented.
\<close>

text \<open>\<open>s.startswith(p)\<close>.\<close>

definition startswith :: "string \<Rightarrow> string \<Rightarrow> bool" where
  "startswith s p = (take (length p) s = p)"

text \<open>\<open>s.endswith(p)\<close>.\<close>

definition endswith :: "string \<Rightarrow> string \<Rightarrow> bool" where
  "endswith s p = (length p \<le> length s \<and> drop (length s - length p) s = p)"

text \<open>\<open>sub in s\<close>: some position of \<open>s\<close> starts an occurrence of \<open>sub\<close>.\<close>

fun py_in :: "string \<Rightarrow> string \<Rightarrow> bool" where
  "py_in sub [] = (sub = [])"
| "py_in sub (c # cs) = (startswith (c # cs) sub \<or> py_in sub cs)"

text \<open>
  The scan of \<open>s.replace(old, new)\<close> for a non-empty \<open>old\<close>: left to right, an occurrence
  found at the current position is replaced and the scan goes on behind it, so
  occurrences do not overlap.
\<close>

function replace_scan :: "string \<Rightarrow> string \<Rightarrow> string \<Rightarrow> string" where
  "replace_scan old new [] = []"
| "replace_scan old new (c # cs) =
     (if old \<noteq> [] \<and> startswith (c # cs) old
      then new @ replace_scan old new (drop (length old) (c # cs))
      else c # replace_scan old new cs)"
  by pat_completeness auto
termination
  by (relation "measure (\<lambda>(old, new, s). length s)") auto

text \<open>
  \<open>s.replace(old, new)\<close>. With an empty \<open>old\<close> Python puts \<open>new\<close> before every
  character and at the end.
\<close>

definition py_replace :: "string \<Rightarrow> string \<Rightarrow> string \<Rightarrow> string" where
  "py_replace s old new =
     (if old = [] then new @ concat (map (\<lambda>c. c # new) s) else replace_scan old new s)"

section \<open>Character classes and the other string methods\<close>

text \<open>
  \<open>str.isspace\<close>, \<open>str.isupper\<close>, \<open>str.islower\<close> and \<open>str.isdigit\<close> of one character, for the
  code points 0 to 255 as CPython 3 classifies them. No code point below 256 is titlecase.
\<close>

definition isspace :: "char \<Rightarrow> bool" where
  "isspace c = (let n = (of_char c :: nat) in
     (9 \<le> n \<and> n \<le> 13) \<or> (28 \<le> n \<and> n \<le> 32) \<or> n = 133 \<or> n = 160)"

definition isupper_char :: "char \<Rightarrow> bool" where
  "isupper_char c = (let n = (of_char c :: nat) in
     (65 \<le> n \<and> n \<le> 90) \<or> (192 \<le> n \<and> n \<le> 214) \<or> (216 \<le> n \<and> n \<le> 222))"

definition islower_char :: "char \<Rightarrow> bool" where
  "islower_char c = (let n = (of_char c :: nat) in
     (97 \<le> n \<and> n \<le> 122) \<or> n = 170 \<or> n = 181 \<or> n = 186
     \<or> (223 \<le> n \<and> n \<le> 246) \<or> (248 \<le> n \<and> n \<le> 255))"

definition isdigit_char :: "char \<Rightarrow> bool" where
  "isdigit_char c = (let n = (of_char c :: nat) in
     (48 \<le> n \<and> n \<le> 57) \<or> n = 178 \<or> n = 179 \<or> n = 185)"

definition isdecimal_char :: "char \<Rightarrow> bool" where
  "isdecimal_char c = (let n = (of_char c :: nat) in 48 \<le> n \<and> n \<le> 57)"

text \<open>\<open>s.strip()\<close>: whitespace removed at both ends.\<close>

definition py_strip :: "string \<Rightarrow> string" where
  "py_strip s = rev (dropWhile isspace (rev (dropWhile isspace s)))"

text \<open>
  \<open>s.split()\<close> without a separator: skip whitespace, take the run of other characters up
  to the next whitespace as a word, and go on behind it.
\<close>

function py_split :: "string \<Rightarrow> string list" where
  "py_split s =
     (let w = dropWhile isspace s in
      if w = [] then []
      else takeWhile (\<lambda>c. \<not> isspace c) w # py_split (dropWhile (\<lambda>c. \<not> isspace c) w))"
  by pat_completeness auto
termination
proof (relation "measure length")
  show "wf (measure length)" by simp
next
  fix s w :: string
  assume w: "w = dropWhile isspace s" and ne: "w \<noteq> []"
  from ne obtain c cs where ccs: "w = c # cs" by (cases w) simp_all
  have "\<not> isspace (hd w)" using w ne hd_dropWhile by metis
  then have "dropWhile (\<lambda>c. \<not> isspace c) w = dropWhile (\<lambda>c. \<not> isspace c) cs"
    using ccs by simp
  then have "length (dropWhile (\<lambda>c. \<not> isspace c) w) \<le> length cs"
    by (simp add: length_dropWhile_le)
  also have "\<dots> < length w" using ccs by simp
  also have "\<dots> \<le> length s" using w by (simp add: length_dropWhile_le)
  finally show "(dropWhile (\<lambda>c. \<not> isspace c) w, s) \<in> measure length" by simp
qed

declare py_split.simps [simp del]

text \<open>\<open>sep.join(xs)\<close>.\<close>

fun py_join :: "string \<Rightarrow> string list \<Rightarrow> string" where
  "py_join sep [] = []"
| "py_join sep [x] = x"
| "py_join sep (x # y # ys) = x @ sep @ py_join sep (y # ys)"

text \<open>
  \<open>s.isupper()\<close>: no lowercase (or titlecase) character and at least one uppercase one.
\<close>

definition py_isupper :: "string \<Rightarrow> bool" where
  "py_isupper s = (list_all (\<lambda>c. \<not> islower_char c) s \<and> list_ex isupper_char s)"

text \<open>\<open>s.isdigit()\<close>: not empty and digits only; the superscripts 1, 2 and 3 count as digits.\<close>

definition py_isdigit :: "string \<Rightarrow> bool" where
  "py_isdigit s = (s \<noteq> [] \<and> list_all isdigit_char s)"

text \<open>
  \<open>int(s)\<close> for a string that passed \<open>isdigit\<close>: the decimal value, and ValueError (None)
  when a character is a digit but not a decimal one. The limit that newer Python
  versions put on the number of digits is not modelled.
\<close>

definition py_int :: "string \<Rightarrow> nat option" where
  "py_int s = (if s \<noteq> [] \<and> list_all isdecimal_char s
     then Some (foldl (\<lambda>acc c. 10 * acc + (of_char c - 48)) 0 s) else None)"

text \<open>\<open>str(n)\<close> of a natural number, as the f-string of the table label prints it.\<close>

function str_nat :: "nat \<Rightarrow> string" where
  "str_nat n = (if n < 10 then [''0123456789'' ! n]
                else str_nat (n div 10) @ [''0123456789'' ! (n mod 10)])"
  by pat_completeness auto
termination
  by (relation "measure id") auto

declare str_nat.simps [simp del]

section \<open>Constants and the files under config/\<close>

datatype py_error = AttributeError | TypeError | ValueError | FileNotFoundError
  | PermissionError | LibraryError

definition DEFAULT_PROMPT :: string where
  "DEFAULT_PROMPT =
      ''You are an expert radiologist creating a concise radiology impression section following RCR 2018 standards.\<newline>'' @
      ''\<newline>'' @
      ''CRITICAL INSTRUCTIONS:\<newline>'' @
      ''1. You MUST follow ALL steps, protocols, and guidelines mentioned in the REFERENCE DOCUMENT below\<newline>'' @
      ''2. Read the ENTIRE reference document carefully before generating the impression\<newline>'' @
      ''3. Apply every relevant checklist, measurement standard, and reporting requirement from the document\<newline>'' @
      ''4. If the document specifies a structure or format, follow it exactly\<newline>'' @
      ''5. If the document mentions specific terminology or classifications, use them\<newline>'' @
      ''\<newline>'' @
      ''Generate the impression as exactly 3-4 bullet points:\<newline>'' @
      ''- Summarize key findings following document protocols\<newline>'' @
      ''- State primary diagnosis or differential as per document guidelines\<newline>'' @
      ''- Include any measurements or specifics required by the document\<newline>'' @
      ''\<newline>'' @
      ''Use clear, standardized terminology as specified in the reference document.\<newline>'' @
      ''\<newline>'' @
      ''---REFERENCE DOCUMENT START---\<newline>'' @
      ''{document_content}\<newline>'' @
      ''---REFERENCE DOCUMENT END---\<newline>'' @
      ''\<newline>'' @
      ''Now generate the impression following ALL guidelines above.''"

text \<open>
  What \<open>json.load\<close> returns for the prompt record file: a dict from study name to value,
  or a value that is no dict (a list, string, number, boolean or null). A value of the
  dict is a string or something else. Serialising with \<open>json.dump\<close> and parsing again is
  taken to give the value back, so the file is modelled by its parsed content.
\<close>

datatype json_value = JStr string | JNonStr

datatype json_top = JDict "string \<Rightarrow> json_value option" | JNonDict

datatype prompts_file_state = Missing | Unparseable | Parsed json_top

text \<open>
  A document file is modelled by what the two extraction libraries make of its bytes:
  the text \<open>docx2txt.process\<close> returns and the document \<open>DocxDocument\<close> parses, None
  where the library raises.
\<close>

record docx_paragraph =
  para_text :: string
  para_style_name :: string
  para_runs_bold :: "bool option list"

record docx_document =
  paragraphs :: "docx_paragraph list"
  tables :: "string list list list"

record docx_file =
  docx2txt_process :: "string option"
  DocxDocument :: "docx_document option"

record fs =
  PROMPTS_FILE :: prompts_file_state
  documents :: "string \<Rightarrow> docx_file option"

text \<open>The two import flags of the module.\<close>

record env =
  DOCX_AVAILABLE :: bool
  DOCX2TXT_AVAILABLE :: bool

text \<open>
  How a write to a file ends: done, refused at \<open>open\<close> (the file is untouched), or failed
  after \<open>open\<close> truncated the file, leaving the given content behind.
\<close>

datatype 'f write_outcome = WriteOk | OpenFails | WriteFails 'f

section \<open>The prompt store\<close>

definition load_study_prompts :: "fs \<Rightarrow> json_top" where
  "load_study_prompts st =
     (case PROMPTS_FILE st of
        Missing \<Rightarrow> JDict Map.empty
      | Unparseable \<Rightarrow> JDict Map.empty
      | Parsed j \<Rightarrow> j)"

text \<open>
  \<open>prompts[study_name] = prompt\<close> raises TypeError, outside the \<open>try\<close>, when the file held
  no dict. A write that fails after the file was opened leaves a truncated file, which
  no longer parses.
\<close>

definition save_study_prompt ::
  "unit write_outcome \<Rightarrow> fs \<Rightarrow> string \<Rightarrow> string \<Rightarrow> py_error + (bool \<times> fs)" where
  "save_study_prompt w st study_name prompt =
     (case load_study_prompts st of
        JNonDict \<Rightarrow> Inl TypeError
      | JDict prompts \<Rightarrow>
          (case w of
             WriteOk \<Rightarrow>
               Inr (True, st\<lparr>PROMPTS_FILE := Parsed (JDict (prompts(study_name \<mapsto> JStr prompt)))\<rparr>)
           | OpenFails \<Rightarrow> Inr (False, st)
           | WriteFails u \<Rightarrow> Inr (False, st\<lparr>PROMPTS_FILE := Unparseable\<rparr>)))"

text \<open>\<open>prompts.get(study_name, DEFAULT_PROMPT)\<close>; only a dict has \<open>get\<close>.\<close>

definition get_study_prompt :: "fs \<Rightarrow> string \<Rightarrow> py_error + json_value" where
  "get_study_prompt st study_name =
     (case load_study_prompts st of
        JNonDict \<Rightarrow> Inl AttributeError
      | JDict prompts \<Rightarrow>
          Inr (case prompts study_name of None \<Rightarrow> JStr DEFAULT_PROMPT | Some v \<Rightarrow> v))"

section \<open>The document store\<close>

text \<open>
  \<open>DOCUMENTS_DIR / f"{safe_name}.docx"\<close>, as the POSIX path string. The safe name holds
  no slash, so it is one path component.
\<close>

definition get_study_document_path :: "string \<Rightarrow> string" where
  "get_study_document_path study_name =
     (let safe_name = py_replace (py_replace study_name ''/'' ''_'') '' '' ''_''
      in ''config/study_documents/'' @ safe_name @ ''.docx'')"

text \<open>\<open>path.exists()\<close> for a document path.\<close>

definition path_exists :: "fs \<Rightarrow> string \<Rightarrow> bool" where
  "path_exists st p = (documents st p \<noteq> None)"

definition save_study_document ::
  "docx_file write_outcome \<Rightarrow> fs \<Rightarrow> string \<Rightarrow> docx_file \<Rightarrow> bool \<times> fs" where
  "save_study_document w st study_name uploaded_file =
     (let doc_path = get_study_document_path study_name in
      case w of
        WriteOk \<Rightarrow> (True, st\<lparr>documents := (documents st)(doc_path \<mapsto> uploaded_file)\<rparr>)
      | OpenFails \<Rightarrow> (False, st)
      | WriteFails partial \<Rightarrow> (False, st\<lparr>documents := (documents st)(doc_path \<mapsto> partial)\<rparr>))"

text \<open>
  \<open>doc_path.unlink()\<close>: FileNotFoundError when there is no such file, PermissionError when
  the system refuses.
\<close>

definition unlink :: "bool \<Rightarrow> fs \<Rightarrow> string \<Rightarrow> py_error + fs" where
  "unlink permitted st p =
     (if \<not> path_exists st p then Inl FileNotFoundError
      else if \<not> permitted then Inl PermissionError
      else Inr (st\<lparr>documents := (documents st)(p := None)\<rparr>))"

text \<open>
  The Remove Document button (lines 289 to 311). It is shown only when the document
  exists; the result tells whether "Document removed!" was reported.
\<close>

definition remove_document :: "bool \<Rightarrow> fs \<Rightarrow> string \<Rightarrow> bool \<times> fs" where
  "remove_document permitted st config_study =
     (let doc_path = get_study_document_path config_study;
          doc_exists = path_exists st doc_path
      in if doc_exists
         then (case unlink permitted st doc_path of
                 Inr st' \<Rightarrow> (True, st')
               | Inl e \<Rightarrow> (False, st))
         else (False, st))"

section \<open>Document extraction\<close>

text \<open>\<open>para.runs and para.runs[0].bold\<close>, as a truth value.\<close>

definition first_run_bold :: "docx_paragraph \<Rightarrow> bool" where
  "first_run_bold para =
     (case para_runs_bold para of [] \<Rightarrow> False | b # bs \<Rightarrow> b = Some True)"

text \<open>The lines one paragraph adds to \<open>structured_content\<close> (lines 155 to 180).\<close>

definition render_paragraph :: "docx_paragraph \<Rightarrow> py_error + string list" where
  "render_paragraph para =
     (let text = py_strip (para_text para) in
      if text = [] then Inr [[]]
      else if startswith (para_style_name para) ''Heading'' then
        (let level = py_strip (py_replace (para_style_name para) ''Heading'' []) in
         if py_isdigit level then
           (case py_int level of
              None \<Rightarrow> Inl ValueError
            | Some n \<Rightarrow>
                Inr [[], replicate n CHR ''#'' @ '' '' @ text, replicate (length text) CHR ''-''])
         else Inr [[], ''## '' @ text, replicate (length text) CHR ''-''])
      else if length text < 100 \<and>
              (py_isupper text \<or> endswith text '':'' \<or> first_run_bold para)
        then Inr [[], ''### '' @ text, []]
      else Inr [text])"

fun render_paragraphs :: "docx_paragraph list \<Rightarrow> py_error + string list" where
  "render_paragraphs [] = Inr []"
| "render_paragraphs (para # rest) =
     (case render_paragraph para of
        Inl e \<Rightarrow> Inl e
      | Inr ls \<Rightarrow>
          (case render_paragraphs rest of
             Inl e \<Rightarrow> Inl e
           | Inr ls' \<Rightarrow> Inr (ls @ ls')))"

text \<open>The lines one table row adds (lines 192 to 194): nothing when the joined text is empty.\<close>

definition render_row :: "string list \<Rightarrow> string list" where
  "render_row cells =
     (let row_text = py_join '' | '' (map py_strip cells) in
      if row_text \<noteq> [] then [row_text] else [])"

definition render_table :: "nat \<Rightarrow> string list list \<Rightarrow> string list" where
  "render_table i table =
     (''\<newline>[Table '' @ str_nat (i + 1) @ '']'') # concat (map render_row table) @ [[]]"

definition render_tables :: "string list list list \<Rightarrow> string list" where
  "render_tables ts =
     (if ts \<noteq> [] then
        [[], replicate 80 CHR ''='', ''TABLES FROM DOCUMENT'', replicate 80 CHR ''='']
        @ concat (map (\<lambda>(i, table). render_table i table) (enumerate 0 ts))
      else [])"

text \<open>
  The body of the \<open>try\<close> of \<open>load_document_content\<close> (lines 136 to 199): the result, or the
  exception that the \<open>except\<close> clause turns into the empty string.
\<close>

definition extract_content :: "env \<Rightarrow> docx_file \<Rightarrow> py_error + string" where
  "extract_content e f =
     (case (if DOCX2TXT_AVAILABLE e
            then (case docx2txt_process f of
                    None \<Rightarrow> Inl LibraryError
                  | Some content \<Rightarrow>
                      Inr (if content \<noteq> [] \<and> py_strip content \<noteq> []
                           then Some (py_strip content) else None))
            else Inr None) of
        Inl err \<Rightarrow> Inl err
      | Inr (Some content) \<Rightarrow> Inr content
      | Inr None \<Rightarrow>
          (if DOCX_AVAILABLE e
           then (case DocxDocument f of
                   None \<Rightarrow> Inl LibraryError
                 | Some doc \<Rightarrow>
                     (case render_paragraphs (paragraphs doc) of
                        Inl err \<Rightarrow> Inl err
                      | Inr body \<Rightarrow>
                          Inr (py_join ''\<newline>''
                                 ([replicate 80 CHR ''='',
                                   ''REFERENCE DOCUMENT - COMPLETE CONTENT'',
                                   replicate 80 CHR ''='', []]
                                  @ body @ render_tables (tables doc)))))
           else Inr []))"

definition load_document_content :: "env \<Rightarrow> fs \<Rightarrow> string \<Rightarrow> string" where
  "load_document_content e st file_path =
     (case documents st file_path of
        None \<Rightarrow> []
      | Some f \<Rightarrow> (case extract_content e f of Inl err \<Rightarrow> [] | Inr content \<Rightarrow> content))"

section \<open>Token estimate and prompt assembly\<close>

text \<open>
  Python floats are IEEE 754 doubles: 53 significant bits, results rounded to the
  nearest double, ties to the even significand. A double is modelled by the real number
  it stands for. The numbers met here are natural numbers and natural multiples of
  \<open>1 / 2 ^ 52\<close>, far from overflow and from the subnormal range (a length is below
  \<open>2 ^ 63\<close>), so rounding a multiple of \<open>1 / 2 ^ 52\<close> is rounding its numerator.

  \<open>shift53 n\<close> is the number of low bits that \<open>n\<close> has beyond 53 bits,
  \<open>round_grid s n\<close> rounds \<open>n\<close> to a multiple of \<open>2 ^ s\<close>, ties to the even multiple,
  and \<open>round53 n\<close> is the double nearest to \<open>n\<close>.
\<close>

function shift53 :: "nat \<Rightarrow> nat" where
  "shift53 n = (if n < 2 ^ 53 then 0 else Suc (shift53 (n div 2)))"
  by pat_completeness auto
termination
  by (relation "measure id") auto

declare shift53.simps [simp del]

definition round_grid :: "nat \<Rightarrow> nat \<Rightarrow> nat" where
  "round_grid s n =
     (let q = n div 2 ^ s; r = n mod 2 ^ s
      in (if 2 * r > 2 ^ s \<or> (2 * r = 2 ^ s \<and> odd q) then q + 1 else q) * 2 ^ s)"

definition round53 :: "nat \<Rightarrow> nat" where
  "round53 n = round_grid (shift53 n) n"

text \<open>
  \<open>len(text.split()) * 1.3\<close>. The literal \<open>1.3\<close> is the double
  \<open>5854679515581645 / 2 ^ 52\<close>. The length is converted to a double, and the exact
  product of the two doubles is rounded to a double. On three words this is
  \<open>17564038546744936 / 2 ^ 52\<close>, which Python prints as \<open>3.9000000000000004\<close>.
\<close>

definition count_tokens_estimate :: "string \<Rightarrow> real" where
  "count_tokens_estimate text =
     real (round53 (round53 (length (py_split text)) * 5854679515581645)) / 2 ^ 52"

text \<open>
  Line 406 of the submission handler (and line 271 of the sidebar):
  \<open>study_prompt_template.replace("{document_content}", document_content)\<close>.
\<close>

definition system_prompt :: "string \<Rightarrow> string \<Rightarrow> string" where
  "system_prompt study_prompt_template document_content =
     py_replace study_prompt_template ''{document_content}'' document_content"

text \<open>The message level of the sidebar's token check (lines 274 to 279).\<close>

datatype st_message = St_error | St_warning | St_success

definition token_check :: "real \<Rightarrow> st_message" where
  "token_check est_tokens =
     (if est_tokens > 100000 then St_error
      else if est_tokens > 50000 then St_warning
      else St_success)"

text \<open>
  The sidebar shows the check only for a prompt with the placeholder and a study with
  a document on disk (lines 267 to 279).
\<close>

definition sidebar_token_check :: "env \<Rightarrow> fs \<Rightarrow> string \<Rightarrow> string \<Rightarrow> st_message option" where
  "sidebar_token_check e st config_study edited_prompt =
     (if py_in ''{document_content}'' edited_prompt then
        (let doc_path = get_study_document_path config_study in
         if path_exists st doc_path then
           (let doc_content = load_document_content e st doc_path;
                filled_prompt = py_replace edited_prompt ''{document_content}'' doc_content;
                est_tokens = count_tokens_estimate filled_prompt
            in Some (token_check est_tokens))
         else None)
      else None)"

section \<open>The submission handler\<close>

definition user_prompt :: "string \<Rightarrow> string \<Rightarrow> string \<Rightarrow> string" where
  "user_prompt study_type history findings =
     ''\<newline>Study Type: '' @ study_type @
     ''\<newline>Clinical History: '' @ (if history \<noteq> [] then history else ''Not provided'') @
     ''\<newline>Key Findings: '' @ findings @
     ''\<newline>\<newline>Following ALL protocols and guidelines in the reference document above, generate a concise impression in 3-4 bullet points.''"

text \<open>
  What a submission does (lines 390 to 434): the session fields it sets and either the
  refusal of an estimate above 120000 or the request sent to the API, with the system
  and the user message.
\<close>

datatype generation = Blocked | ApiCall string string

record session =
  document_used :: string
  prompt_used :: string

definition submission_handler ::
  "env \<Rightarrow> fs \<Rightarrow> bool \<Rightarrow> string \<Rightarrow> string \<Rightarrow> string \<Rightarrow> string
     \<Rightarrow> py_error + (session \<times> generation) option" where
  "submission_handler e st submit openai_api_key study_type history findings =
     (if submit \<and> openai_api_key \<noteq> [] then
        (case get_study_prompt st study_type of
           Inl err \<Rightarrow> Inl err
         | Inr study_prompt_template \<Rightarrow>
             (let doc_path = get_study_document_path study_type;
                  document_content =
                    (if path_exists st doc_path then load_document_content e st doc_path
                     else ''No reference document available for this study type.'');
                  used = (if path_exists st doc_path then document_content else [])
              in case study_prompt_template of
                   JNonStr \<Rightarrow> Inl AttributeError
                 | JStr template \<Rightarrow>
                     (let sp = system_prompt template document_content;
                          total_tokens = count_tokens_estimate sp
                      in Inr (Some (\<lparr>document_used = used, prompt_used = sp\<rparr>,
                                    if total_tokens > 120000 then Blocked
                                    else ApiCall sp (user_prompt study_type history findings))))))
      else Inr None)"

section \<open>The word count of the specification\<close>

text \<open>
  The specification's "number of whitespace-separated words", written from its words
  and not from the code: a word starts at every character that is no whitespace and
  stands at the start of the text or right behind a whitespace character.
  \<open>prev_space\<close> tells whether the position before is such a place.
\<close>

fun word_count_from :: "bool \<Rightarrow> string \<Rightarrow> nat" where
  "word_count_from prev_space [] = 0"
| "word_count_from prev_space (c # cs) =
     (if \<not> isspace c \<and> prev_space then 1 else 0) + word_count_from (isspace c) cs"

definition word_count :: "string \<Rightarrow> nat" where
  "word_count s = word_count_from True s"

section \<open>Lemmas on replacement\<close>

lemma startswith_Nil [simp]: "startswith s []"
  by (simp add: startswith_def)

lemma startswith_append_same [simp]: "startswith (p @ s) p"
  by (simp add: startswith_def)

lemma py_in_iff: "py_in sub s \<longleftrightarrow> (\<exists>a b. s = a @ sub @ b)"
proof (induction s)
  case Nil
  then show ?case by auto
next
  case (Cons c cs)
  show ?case
  proof
    assume "py_in sub (c # cs)"
    then consider "startswith (c # cs) sub" | "py_in sub cs" by auto
    then show "\<exists>a b. c # cs = a @ sub @ b"
    proof cases
      case 1
      then have "c # cs = [] @ sub @ drop (length sub) (c # cs)"
        unfolding startswith_def by (metis append_Nil append_take_drop_id)
      then show ?thesis by blast
    next
      case 2
      then obtain a b where "cs = a @ sub @ b" using Cons.IH by blast
      then have "c # cs = (c # a) @ sub @ b" by simp
      then show ?thesis by blast
    qed
  next
    assume "\<exists>a b. c # cs = a @ sub @ b"
    then obtain a b where ab: "c # cs = a @ sub @ b" by blast
    show "py_in sub (c # cs)"
    proof (cases a)
      case Nil
      with ab have "startswith (c # cs) sub" by (simp add: startswith_def)
      then show ?thesis by simp
    next
      case (Cons x a')
      with ab have "cs = a' @ sub @ b" by simp
      then have "py_in sub cs" using Cons.IH by blast
      then show ?thesis by simp
    qed
  qed
qed

lemma replace_scan_absent:
  "\<not> py_in old s \<Longrightarrow> replace_scan old new s = s"
  by (induction old new s rule: replace_scan.induct) auto

text \<open>
  A token whose first character occurs nowhere else in it cannot overlap itself, so an
  occurrence of it splits the scan in two independent parts.
\<close>

lemma startswith_straddle:
  assumes old: "old = x # r" "x \<notin> set r"
    and st: "startswith (a @ old @ b) old"
    and short: "length a < length old"
  shows "a = []"
proof (rule ccontr)
  assume "a \<noteq> []"
  then have pos: "0 < length a" by simp
  from st have eq: "take (length old) (a @ old @ b) = old"
    by (simp add: startswith_def)
  have "(take (length old) (a @ old @ b)) ! length a = (a @ old @ b) ! length a"
    using short by (rule nth_take)
  also have "\<dots> = x" using old by (simp add: nth_append)
  finally have "old ! length a = x" using eq by simp
  moreover have "old ! length a = r ! (length a - 1)"
    using old pos by (simp add: nth_Cons')
  moreover have "length a - 1 < length r"
  proof -
    have "length old = Suc (length r)" using old by simp
    with short pos show ?thesis by arith
  qed
  ultimately have "x \<in> set r" by (metis nth_mem)
  with old show False by simp
qed

lemma replace_scan_split:
  assumes old: "old = x # r" "x \<notin> set r"
  shows "replace_scan old new (a @ old @ b) =
           replace_scan old new a @ new @ replace_scan old new b"
proof (induction a rule: length_induct)
  case (1 a)
  show ?case
  proof (cases a)
    case Nil
    then show ?thesis using old by (simp add: startswith_def)
  next
    case (Cons c cs)
    show ?thesis
    proof (cases "startswith a old")
      case True
      then have t: "take (length old) a = old" by (simp add: startswith_def)
      have "length (take (length old) a) = length old" using t by simp
      then have len: "length old \<le> length a" by simp
      then have st: "startswith (a @ old @ b) old"
        using t by (simp add: startswith_def)
      have shorter: "length (drop (length old) a) < length a"
        using old Cons by simp
      have "replace_scan old new (a @ old @ b) =
              new @ replace_scan old new (drop (length old) a @ old @ b)"
        using st old Cons len by simp
      also have "\<dots> = new @ replace_scan old new (drop (length old) a) @ new @ replace_scan old new b"
        using "1.IH" shorter by simp
      also have "\<dots> = replace_scan old new a @ new @ replace_scan old new b"
        using True old Cons by simp
      finally show ?thesis .
    next
      case False
      have nst: "\<not> startswith (a @ old @ b) old"
      proof
        assume st: "startswith (a @ old @ b) old"
        show False
        proof (cases "length a < length old")
          case True
          then have "a = []" using startswith_straddle [OF old st] by simp
          with Cons show False by simp
        next
          case False
          then have "take (length old) (a @ old @ b) = take (length old) a" by simp
          with st \<open>\<not> startswith a old\<close> show False by (simp add: startswith_def)
        qed
      qed
      have "replace_scan old new (a @ old @ b) = c # replace_scan old new (cs @ old @ b)"
        using nst Cons by simp
      also have "\<dots> = c # replace_scan old new cs @ new @ replace_scan old new b"
        using "1.IH" Cons by simp
      also have "\<dots> = replace_scan old new a @ new @ replace_scan old new b"
        using False Cons by simp
      finally show ?thesis .
    qed
  qed
qed

section \<open>Lemmas on splitting into words\<close>

lemma py_split_unfold:
  "py_split s =
     (if dropWhile isspace s = [] then []
      else takeWhile (\<lambda>c. \<not> isspace c) (dropWhile isspace s)
           # py_split (dropWhile (\<lambda>c. \<not> isspace c) (dropWhile isspace s)))"
  by (subst py_split.simps) (simp add: Let_def)

lemma py_split_Nil: "py_split [] = []"
  by (subst py_split_unfold) simp

lemma py_split_space: "isspace c \<Longrightarrow> py_split (c # s) = py_split s"
  by (subst py_split_unfold, subst (2) py_split_unfold) simp

lemma py_split_word:
  "\<not> isspace c \<Longrightarrow> py_split (c # s) =
     (c # takeWhile (\<lambda>c. \<not> isspace c) s) # py_split (dropWhile (\<lambda>c. \<not> isspace c) s)"
  by (subst py_split_unfold) simp

lemma word_count_skip_space:
  "word_count_from True (dropWhile isspace s) = word_count_from True s"
  by (induction s) simp_all

lemma word_count_skip_word:
  "word_count_from True (dropWhile (\<lambda>c. \<not> isspace c) s) = word_count_from False s"
  by (induction s) simp_all

lemma length_py_split: "length (py_split s) = word_count s"
  unfolding word_count_def
proof (induction s rule: py_split.induct)
  case (1 s)
  show ?case
  proof (cases "dropWhile isspace s = []")
    case True
    have "word_count_from True s = word_count_from True (dropWhile isspace s)"
      by (simp add: word_count_skip_space)
    also have "\<dots> = 0" by (simp only: True word_count_from.simps)
    finally have "word_count_from True s = 0" .
    moreover have "py_split s = []" using True by (subst py_split_unfold) simp
    ultimately show ?thesis by simp
  next
    case False
    then obtain c cs where ccs: "dropWhile isspace s = c # cs"
      by (cases "dropWhile isspace s") simp_all
    have nsp: "\<not> isspace c" using hd_dropWhile [of isspace s] ccs by simp
    have "length (py_split s) =
            Suc (length (py_split (dropWhile (\<lambda>c. \<not> isspace c) (dropWhile isspace s))))"
      using False by (subst py_split_unfold) simp
    also have "\<dots> = Suc (word_count_from True (dropWhile (\<lambda>c. \<not> isspace c) (dropWhile isspace s)))"
      using 1 False by simp
    also have "\<dots> = Suc (word_count_from False cs)"
      using ccs nsp by (simp add: word_count_skip_word)
    also have "\<dots> = word_count_from True (c # cs)" using nsp by simp
    also have "\<dots> = word_count_from True s"
      using ccs word_count_skip_space [of s] by simp
    finally show ?thesis .
  qed
qed

lemma word_count_le_length: "word_count_from b s \<le> length s"
  by (induction s arbitrary: b) (auto simp: le_SucI)

section \<open>Lemmas on rounding to a double\<close>

lemma shift53_small: "n < 2 ^ 53 \<Longrightarrow> shift53 n = 0"
  by (simp add: shift53.simps)

lemma shift53_div: "n div 2 ^ shift53 n < 2 ^ 53"
proof (induction n rule: shift53.induct)
  case (1 n)
  show ?case
  proof (cases "n < 2 ^ 53")
    case True
    then show ?thesis by (simp add: shift53_small)
  next
    case False
    then have s: "shift53 n = Suc (shift53 (n div 2))" by (subst shift53.simps) simp
    have "n div 2 ^ shift53 n = (n div 2) div 2 ^ shift53 (n div 2)"
      unfolding s by (simp add: div_mult2_eq)
    with 1 False show ?thesis by simp
  qed
qed

lemma shift53_lower: "0 < shift53 n \<Longrightarrow> 2 ^ 52 \<le> n div 2 ^ shift53 n"
proof (induction n rule: shift53.induct)
  case (1 n)
  show ?case
  proof (cases "n < 2 ^ 53")
    case True
    with 1 show ?thesis by (simp add: shift53_small)
  next
    case False
    then have s: "shift53 n = Suc (shift53 (n div 2))" by (subst shift53.simps) simp
    have eq: "n div 2 ^ shift53 n = (n div 2) div 2 ^ shift53 (n div 2)"
      unfolding s by (simp add: div_mult2_eq)
    show ?thesis
    proof (cases "0 < shift53 (n div 2)")
      case True
      with 1 False eq show ?thesis by simp
    next
      case z: False
      then have "n div 2 ^ shift53 n = n div 2" using eq by simp
      moreover have "(2::nat) ^ 52 \<le> n div 2" using False by simp
      ultimately show ?thesis by simp
    qed
  qed
qed

lemma shift53_mono: "a \<le> b \<Longrightarrow> shift53 a \<le> shift53 b"
proof (induction a arbitrary: b rule: shift53.induct)
  case (1 a)
  show ?case
  proof (cases "a < 2 ^ 53")
    case True
    then show ?thesis by (simp add: shift53_small)
  next
    case False
    with 1 have nb: "\<not> b < 2 ^ 53" by simp
    have "a div 2 \<le> b div 2" using 1 by (simp add: div_le_mono)
    then have "shift53 (a div 2) \<le> shift53 (b div 2)" using 1 False by simp
    then show ?thesis
      using False nb by (subst shift53.simps, subst (2) shift53.simps) simp
  qed
qed


lemma round_grid_lower: "(n div 2 ^ s) * 2 ^ s \<le> round_grid s n"
  by (simp add: round_grid_def Let_def)

lemma round_grid_upper: "round_grid s n \<le> (n div 2 ^ s + 1) * 2 ^ s"
  by (simp add: round_grid_def Let_def)

lemma round_grid_mono:
  assumes "a \<le> b"
  shows "round_grid s a \<le> round_grid s b"
proof (cases "a div 2 ^ s < b div 2 ^ s")
  case True
  have "round_grid s a \<le> (a div 2 ^ s + 1) * 2 ^ s" by (rule round_grid_upper)
  also have "\<dots> \<le> (b div 2 ^ s) * 2 ^ s"
    using True by (intro mult_le_mono1) simp
  also have "\<dots> \<le> round_grid s b" by (rule round_grid_lower)
  finally show ?thesis .
next
  case False
  moreover have "a div 2 ^ s \<le> b div 2 ^ s" using assms by (rule div_le_mono)
  ultimately have q: "a div 2 ^ s = b div 2 ^ s" by simp
  have "a div 2 ^ s * 2 ^ s + a mod 2 ^ s \<le> b div 2 ^ s * 2 ^ s + b mod 2 ^ s"
    using assms by (simp only: div_mult_mod_eq)
  then have r: "a mod 2 ^ s \<le> b mod 2 ^ s" using q by simp
  show ?thesis
    using q r by (auto simp: round_grid_def Let_def)
qed

lemma round53_mono:
  assumes "a \<le> b"
  shows "round53 a \<le> round53 b"
proof (cases "shift53 a = shift53 b")
  case True
  then show ?thesis unfolding round53_def using assms by (simp add: round_grid_mono)
next
  case False
  with shift53_mono [OF assms] have lt: "shift53 a < shift53 b" by simp
  have "round53 a \<le> (a div 2 ^ shift53 a + 1) * 2 ^ shift53 a"
    unfolding round53_def by (rule round_grid_upper)
  also have "\<dots> \<le> 2 ^ 53 * 2 ^ shift53 a"
    using shift53_div [of a] by (simp add: Suc_leI)
  also have "\<dots> = 2 ^ 52 * 2 ^ Suc (shift53 a)" by simp
  also have "\<dots> \<le> 2 ^ 52 * 2 ^ shift53 b"
    using lt by (simp add: Suc_leI power_increasing del: power_Suc)
  also have "\<dots> \<le> (b div 2 ^ shift53 b) * 2 ^ shift53 b"
    using shift53_lower [of b] lt by simp
  also have "\<dots> \<le> round53 b"
    unfolding round53_def by (rule round_grid_lower)
  finally show ?thesis .
qed

lemma round53_zero: "round53 0 = 0"
  by (simp add: round53_def round_grid_def shift53_small)

lemma round_grid_error: "2 * round_grid s n \<le> 2 * n + 2 ^ s \<and> 2 * n \<le> 2 * round_grid s n + 2 ^ s"
proof -
  have n: "n = n div 2 ^ s * 2 ^ s + n mod 2 ^ s" by (rule div_mult_mod_eq [symmetric])
  have r: "n mod 2 ^ s < 2 ^ s" by simp
  show ?thesis
  proof (cases "2 * (n mod 2 ^ s) > 2 ^ s \<or> (2 * (n mod 2 ^ s) = 2 ^ s \<and> odd (n div 2 ^ s))")
    case True
    then have "round_grid s n = n div 2 ^ s * 2 ^ s + 2 ^ s"
      by (simp add: round_grid_def Let_def)
    with n r True show ?thesis by linarith
  next
    case False
    then have "round_grid s n = n div 2 ^ s * 2 ^ s"
      by (auto simp: round_grid_def Let_def)
    with n r False show ?thesis by linarith
  qed
qed

lemma round53_error:
  "2 ^ 53 * round53 n \<le> 2 ^ 53 * n + n \<and> 2 ^ 53 * n \<le> 2 ^ 53 * round53 n + n"
proof (cases "shift53 n = 0")
  case True
  then show ?thesis by (simp add: round53_def round_grid_def)
next
  case False
  then have "2 ^ 52 * 2 ^ shift53 n \<le> n div 2 ^ shift53 n * 2 ^ shift53 n"
    using shift53_lower [of n] by simp
  also have "\<dots> \<le> n" by simp
  finally have s: "2 ^ 52 * 2 ^ shift53 n \<le> n" .
  from round_grid_error [of "shift53 n" n]
  have up: "2 * round53 n \<le> 2 * n + 2 ^ shift53 n"
    and lo: "2 * n \<le> 2 * round53 n + 2 ^ shift53 n"
    unfolding round53_def by simp_all
  have "2 ^ 53 * round53 n = 2 ^ 52 * (2 * round53 n)" by simp
  also have "\<dots> \<le> 2 ^ 52 * (2 * n + 2 ^ shift53 n)"
    using up by (rule mult_le_mono2)
  also have "\<dots> = 2 ^ 53 * n + 2 ^ 52 * 2 ^ shift53 n" by (simp add: algebra_simps)
  also have "\<dots> \<le> 2 ^ 53 * n + n" using s by simp
  finally have a: "2 ^ 53 * round53 n \<le> 2 ^ 53 * n + n" .
  have "2 ^ 53 * n = 2 ^ 52 * (2 * n)" by simp
  also have "\<dots> \<le> 2 ^ 52 * (2 * round53 n + 2 ^ shift53 n)"
    using lo by (rule mult_le_mono2)
  also have "\<dots> = 2 ^ 53 * round53 n + 2 ^ 52 * 2 ^ shift53 n" by (simp add: algebra_simps)
  also have "\<dots> \<le> 2 ^ 53 * round53 n + n" using s by simp
  finally have b: "2 ^ 53 * n \<le> 2 ^ 53 * round53 n + n" .
  from a b show ?thesis ..
qed

lemma round53_error_real:
  "real (round53 n) \<le> real n * (1 + 1 / 2 ^ 53) \<and> real n * (1 - 1 / 2 ^ 53) \<le> real (round53 n)"
proof -
  from round53_error [of n]
  have "real (2 ^ 53 * round53 n) \<le> real (2 ^ 53 * n + n)"
    and "real (2 ^ 53 * n) \<le> real (2 ^ 53 * round53 n + n)"
    by (simp_all only: of_nat_le_iff)
  then show ?thesis by (simp add: field_simps)
qed

lemma count_tokens_estimate_mono:
  "length (py_split s) \<le> length (py_split t) \<Longrightarrow>
     count_tokens_estimate s \<le> count_tokens_estimate t"
  unfolding count_tokens_estimate_def
  by (intro divide_right_mono of_nat_mono round53_mono mult_le_mono1) simp_all

lemma count_tokens_estimate_bounds:
  "count_tokens_estimate text \<le> 13 / 10 * real (length (py_split text)) * (1 + 1 / 2 ^ 51)
   \<and> 13 / 10 * real (length (py_split text)) * (1 - 1 / 2 ^ 51) \<le> count_tokens_estimate text"
proof -
  define n where "n = length (py_split text)"
  define x where "x = real n"
  define x' where "x' = real (round53 n)"
  define y where "y = real (round53 (round53 n * 5854679515581645))"
  have x0: "0 \<le> x" by (simp add: x_def)
  have x'0: "0 \<le> x'" by (simp add: x'_def)
  have a: "x' \<le> x * (1 + 1 / 2 ^ 53)" "x * (1 - 1 / 2 ^ 53) \<le> x'"
    using round53_error_real [of n] by (simp_all add: x_def x'_def)
  have b: "y \<le> (x' * 5854679515581645) * (1 + 1 / 2 ^ 53)"
      "(x' * 5854679515581645) * (1 - 1 / 2 ^ 53) \<le> y"
    using round53_error_real [of "round53 n * 5854679515581645"] by (simp_all add: x'_def y_def)
  have e: "count_tokens_estimate text = y / 2 ^ 52"
    by (simp add: count_tokens_estimate_def y_def n_def)
  have "y \<le> (x * (1 + 1 / 2 ^ 53) * 5854679515581645) * (1 + 1 / 2 ^ 53)"
    using a(1) b(1) by (simp add: field_simps)
  also have "\<dots> = x * ((1 + 1 / 2 ^ 53) * 5854679515581645 * (1 + 1 / 2 ^ 53))" by simp
  also have "\<dots> \<le> x * (13 / 10 * (1 + 1 / 2 ^ 51) * 2 ^ 52)"
    using x0 by (intro mult_left_mono) simp_all
  finally have up: "y / 2 ^ 52 \<le> 13 / 10 * x * (1 + 1 / 2 ^ 51)" by (simp add: field_simps)
  have "x * (13 / 10 * (1 - 1 / 2 ^ 51) * 2 ^ 52) \<le>
          x * ((1 - 1 / 2 ^ 53) * 5854679515581645 * (1 - 1 / 2 ^ 53))"
    using x0 by (intro mult_left_mono) simp_all
  also have "\<dots> = (x * (1 - 1 / 2 ^ 53) * 5854679515581645) * (1 - 1 / 2 ^ 53)" by simp
  also have "\<dots> \<le> y"
    using a(2) b(2) by (simp add: field_simps)
  finally have lo: "13 / 10 * x * (1 - 1 / 2 ^ 51) \<le> y / 2 ^ 52" by (simp add: field_simps)
  from up lo show ?thesis unfolding e x_def n_def by simp
qed

section \<open>Lemmas on the stores and the submission handler\<close>

lemma replace_scan_no_first: "x \<notin> set s \<Longrightarrow> replace_scan (x # r) new s = s"
  by (induction s) (auto simp: startswith_def)

lemma replace_scan_char:
  "replace_scan [x] [y] s = map (\<lambda>c. if c = x then y else c) s"
  by (induction s) (auto simp: startswith_def)

lemma safe_name_map:
  "py_replace (py_replace s ''/'' ''_'') '' '' ''_'' =
     map (\<lambda>c. if c = CHR ''/'' \<or> c = CHR '' '' then CHR ''_'' else c) s"
  by (simp add: py_replace_def replace_scan_char)

lemma path_CT_Chest:
  "get_study_document_path ''CT Chest'' = ''config/study_documents/CT_Chest.docx''"
  by (simp add: get_study_document_path_def safe_name_map)

lemma py_split_replicate: "py_split (concat (replicate n ''w '')) = replicate n ''w''"
  by (induction n) (simp_all add: py_split_Nil py_split_space py_split_word isspace_def)

lemma system_prompt_replicate:
  "system_prompt (concat (replicate n ''w '')) doc = concat (replicate n ''w '')"
proof -
  have "CHR ''{'' \<notin> set (concat (replicate n ''w ''))" by (cases n) auto
  then show ?thesis
    by (simp add: system_prompt_def py_replace_def replace_scan_no_first)
qed

lemma submission_handler_no_document:
  assumes "openai_api_key \<noteq> []"
    and "get_study_prompt st study_type = Inr (JStr template)"
    and "\<not> path_exists st (get_study_document_path study_type)"
  shows "submission_handler e st True openai_api_key study_type history findings =
    Inr (Some (\<lparr>document_used = [],
                prompt_used = system_prompt template
                  ''No reference document available for this study type.''\<rparr>,
               if count_tokens_estimate (system_prompt template
                  ''No reference document available for this study type.'') > 120000
               then Blocked
               else ApiCall (system_prompt template
                  ''No reference document available for this study type.'')
                  (user_prompt study_type history findings)))"
  using assms by (simp add: submission_handler_def Let_def)

lemma submission_handler_document:
  assumes "openai_api_key \<noteq> []"
    and "get_study_prompt st study_type = Inr (JStr template)"
    and "path_exists st (get_study_document_path study_type)"
  shows "submission_handler e st True openai_api_key study_type history findings =
    Inr (Some (\<lparr>document_used = load_document_content e st (get_study_document_path study_type),
                prompt_used = system_prompt template
                  (load_document_content e st (get_study_document_path study_type))\<rparr>,
               if count_tokens_estimate (system_prompt template
                  (load_document_content e st (get_study_document_path study_type))) > 120000
               then Blocked
               else ApiCall (system_prompt template
                  (load_document_content e st (get_study_document_path study_type)))
                  (user_prompt study_type history findings)))"
  using assms by (simp add: submission_handler_def Let_def)

section \<open>Lemmas on the default prompt\<close>

lemma DEFAULT_PROMPT_split:
  "DEFAULT_PROMPT =
     (''You are an expert radiologist creating a concise radiology impression section following RCR 2018 standards.\<newline>'' @
      ''\<newline>'' @
      ''CRITICAL INSTRUCTIONS:\<newline>'' @
      ''1. You MUST follow ALL steps, protocols, and guidelines mentioned in the REFERENCE DOCUMENT below\<newline>'' @
      ''2. Read the ENTIRE reference document carefully before generating the impression\<newline>'' @
      ''3. Apply every relevant checklist, measurement standard, and reporting requirement from the document\<newline>'' @
      ''4. If the document specifies a structure or format, follow it exactly\<newline>'' @
      ''5. If the document mentions specific terminology or classifications, use them\<newline>'' @
      ''\<newline>'' @
      ''Generate the impression as exactly 3-4 bullet points:\<newline>'' @
      ''- Summarize key findings following document protocols\<newline>'' @
      ''- State primary diagnosis or differential as per document guidelines\<newline>'' @
      ''- Include any measurements or specifics required by the document\<newline>'' @
      ''\<newline>'' @
      ''Use clear, standardized terminology as specified in the reference document.\<newline>'' @
      ''\<newline>'' @
      ''---REFERENCE DOCUMENT START---\<newline>'')
     @ ''{document_content}'' @
     (''\<newline>'' @
      ''---REFERENCE DOCUMENT END---\<newline>'' @
      ''\<newline>'' @
      ''Now generate the impression following ALL guidelines above.'')"
  by (simp add: DEFAULT_PROMPT_def)

lemma system_prompt_DEFAULT_PROMPT:
  "system_prompt DEFAULT_PROMPT doc =
     (''You are an expert radiologist creating a concise radiology impression section following RCR 2018 standards.\<newline>'' @
      ''\<newline>'' @
      ''CRITICAL INSTRUCTIONS:\<newline>'' @
      ''1. You MUST follow ALL steps, protocols, and guidelines mentioned in the REFERENCE DOCUMENT below\<newline>'' @
      ''2. Read the ENTIRE reference document carefully before generating the impression\<newline>'' @
      ''3. Apply every relevant checklist, measurement standard, and reporting requirement from the document\<newline>'' @
      ''4. If the document specifies a structure or format, follow it exactly\<newline>'' @
      ''5. If the document mentions specific terminology or classifications, use them\<newline>'' @
      ''\<newline>'' @
      ''Generate the impression as exactly 3-4 bullet points:\<newline>'' @
      ''- Summarize key findings following document protocols\<newline>'' @
      ''- State primary diagnosis or differential as per document guidelines\<newline>'' @
      ''- Include any measurements or specifics required by the document\<newline>'' @
      ''\<newline>'' @
      ''Use clear, standardized terminology as specified in the reference document.\<newline>'' @
      ''\<newline>'' @
      ''---REFERENCE DOCUMENT START---\<newline>'')
     @ doc @
     (''\<newline>'' @
      ''---REFERENCE DOCUMENT END---\<newline>'' @
      ''\<newline>'' @
      ''Now generate the impression following ALL guidelines above.'')"
  (is "_ = ?A @ doc @ ?B")
proof -
  define A where "A = ?A"
  define B where "B = ?B"
  have split: "DEFAULT_PROMPT = A @ ''{document_content}'' @ B"
    unfolding A_def B_def by (rule DEFAULT_PROMPT_split)
  have nA: "CHR ''{'' \<notin> set A" unfolding A_def by simp
  have nB: "CHR ''{'' \<notin> set B" unfolding B_def by simp
  have "replace_scan ''{document_content}'' doc (A @ ''{document_content}'' @ B) =
          replace_scan ''{document_content}'' doc A @ doc @ replace_scan ''{document_content}'' doc B"
    by (rule replace_scan_split [where x = "CHR ''{''" and r = "''document_content}''"]) simp_all
  also have "\<dots> = A @ doc @ B"
    by (simp only: replace_scan_no_first [OF nA] replace_scan_no_first [OF nB])
  finally have "system_prompt DEFAULT_PROMPT doc = A @ doc @ B"
    unfolding system_prompt_def py_replace_def split by simp
  then show ?thesis unfolding A_def B_def by simp
qed

lemma default_system_prompt_words:
  "word_count (system_prompt DEFAULT_PROMPT ''No reference document available for this study type.'') = 146"
  unfolding system_prompt_DEFAULT_PROMPT word_count_def
  by (simp add: isspace_def)

section \<open>Lemmas on table rows\<close>

lemma py_join_empty_iff:
  "sep \<noteq> [] \<Longrightarrow> py_join sep xs = [] \<longleftrightarrow> xs = [] \<or> xs = [[]]"
  by (induction sep xs rule: py_join.induct) simp_all

text \<open>
  A row is left out exactly when it has no cell or one blank cell; every other row,
  also one of several blank cells, is rendered as its stripped cells joined by the
  delimiter.
\<close>

lemma render_row_skipped_iff:
  "render_row cells = [] \<longleftrightarrow> cells = [] \<or> (\<exists>c. cells = [c] \<and> py_strip c = [])"
proof -
  have "py_join '' | '' (map py_strip cells) = [] \<longleftrightarrow>
          map py_strip cells = [] \<or> map py_strip cells = [[]]"
    by (rule py_join_empty_iff) simp
  then show ?thesis
    by (auto simp: render_row_def Let_def map_eq_Cons_conv)
qed

lemma render_row_rendered:
  "render_row cells \<noteq> [] \<Longrightarrow> render_row cells = [py_join '' | '' (map py_strip cells)]"
  by (simp add: render_row_def Let_def split: if_splits)

section \<open>Claims\<close>

text \<open>
  C1. Assembling the system prompt is literal substring replacement of the placeholder
  token. A template without an occurrence of \<open>{document_content}\<close> is returned unchanged.
  Every occurrence is replaced by the document text: a template split at any occurrence
  of the token is assembled as the assembled left part, the document text, and the
  assembled right part. On the template \<open>Rules: {document_content} End.\<close> and the document
  \<open>Measure nodules >6mm.\<close> the result is \<open>Rules: Measure nodules >6mm. End.\<close>
\<close>

theorem assemble_literal_replacement:
  "(\<not> py_in ''{document_content}'' template \<longrightarrow> system_prompt template doc = template)
   \<and> system_prompt (a @ ''{document_content}'' @ b) doc =
       system_prompt a doc @ doc @ system_prompt b doc
   \<and> system_prompt ''Rules: {document_content} End.'' ''Measure nodules >6mm.'' =
       ''Rules: Measure nodules >6mm. End.''"
proof (intro conjI impI)
  assume "\<not> py_in ''{document_content}'' template"
  then show "system_prompt template doc = template"
    by (simp add: system_prompt_def py_replace_def replace_scan_absent)
next
  have "replace_scan ''{document_content}'' doc (a @ ''{document_content}'' @ b) =
          replace_scan ''{document_content}'' doc a @ doc @
          replace_scan ''{document_content}'' doc b"
    by (rule replace_scan_split [where x = "CHR ''{''" and r = "''document_content}''"]) simp_all
  then show "system_prompt (a @ ''{document_content}'' @ b) doc =
      system_prompt a doc @ doc @ system_prompt b doc"
    by (simp add: system_prompt_def py_replace_def)
next
  show "system_prompt ''Rules: {document_content} End.'' ''Measure nodules >6mm.'' =
       ''Rules: Measure nodules >6mm. End.''"
    by (simp add: system_prompt_def py_replace_def startswith_def)
qed

theorem assemble_literal_replacement_witness:
  "\<not> py_in ''{document_content}'' ''Report the findings.''
   \<and> system_prompt ''Report the findings.'' ''Measure nodules >6mm.'' = ''Report the findings.''
   \<and> system_prompt ''A {document_content} B {document_content}'' ''doc'' = ''A doc B doc''"
proof -
  have h: "\<not> py_in ''{document_content}'' ''Report the findings.''"
    by (simp add: startswith_def)
  have s: "system_prompt ''Report the findings.'' ''Measure nodules >6mm.'' = ''Report the findings.''"
    using assemble_literal_replacement [of "''Report the findings.''" "''Measure nodules >6mm.''"] h
    by blast
  have t: "system_prompt ''A {document_content} B {document_content}'' ''doc'' = ''A doc B doc''"
    by (simp add: system_prompt_def py_replace_def startswith_def)
  from h s t show ?thesis by blast
qed

text \<open>
  C6. The token estimate of a text is the number of its whitespace-separated words
  multiplied by 1.3, as a product of doubles: the word count as a double, times the
  double 1.3, rounded to a double. It differs from the exact product by at most the
  fraction \<open>1 / 2 ^ 51\<close> of it. The estimate of the empty text is 0, a text with no more
  words than another has no larger estimate, and two texts with the same number of
  words have the same estimate.
\<close>

theorem count_tokens_estimate_words:
  "count_tokens_estimate text =
     real (round53 (round53 (word_count text) * 5854679515581645)) / 2 ^ 52
   \<and> \<bar>count_tokens_estimate text - real (word_count text) * 1.3\<bar>
       \<le> real (word_count text) * 1.3 / 2 ^ 51
   \<and> count_tokens_estimate [] = 0
   \<and> (word_count s \<le> word_count t \<longrightarrow> count_tokens_estimate s \<le> count_tokens_estimate t)
   \<and> (word_count s = word_count t \<longrightarrow> count_tokens_estimate s = count_tokens_estimate t)"
proof (intro conjI impI)
  show "count_tokens_estimate text =
     real (round53 (round53 (word_count text) * 5854679515581645)) / 2 ^ 52"
    by (simp add: count_tokens_estimate_def length_py_split)
next
  define m where "m = real (word_count text) * 1.3"
  define d where "d = real (word_count text) * 1.3 / 2 ^ 51"
  have up: "13 / 10 * real (word_count text) * (1 + 1 / 2 ^ 51) = m + d"
    and lo: "13 / 10 * real (word_count text) * (1 - 1 / 2 ^ 51) = m - d"
    by (simp_all add: m_def d_def algebra_simps)
  from count_tokens_estimate_bounds [of "text"]
  have "count_tokens_estimate text \<le> m + d" and "m - d \<le> count_tokens_estimate text"
    by (simp_all only: length_py_split up lo)
  then have "\<bar>count_tokens_estimate text - m\<bar> \<le> d" by linarith
  then show "\<bar>count_tokens_estimate text - real (word_count text) * 1.3\<bar>
       \<le> real (word_count text) * 1.3 / 2 ^ 51"
    by (simp only: m_def d_def)
next
  show "count_tokens_estimate [] = 0"
    by (simp add: count_tokens_estimate_def py_split_Nil round53_zero)
next
  assume "word_count s \<le> word_count t"
  then show "count_tokens_estimate s \<le> count_tokens_estimate t"
    by (intro count_tokens_estimate_mono) (simp only: length_py_split)
next
  assume "word_count s = word_count t"
  then show "count_tokens_estimate s = count_tokens_estimate t"
    by (simp add: count_tokens_estimate_def length_py_split)
qed

theorem count_tokens_estimate_words_witness:
  "word_count ''CT  chest'' \<le> word_count ''no acute findings''
   \<and> count_tokens_estimate ''CT  chest'' \<le> count_tokens_estimate ''no acute findings''
   \<and> word_count ''CT  chest'' = word_count '' CT chest ''
   \<and> count_tokens_estimate ''CT  chest'' = count_tokens_estimate '' CT chest ''
   \<and> count_tokens_estimate ''no acute findings'' = 17564038546744936 / 2 ^ 52"
proof -
  have a: "word_count ''CT  chest'' = 2" by (simp add: word_count_def isspace_def)
  have b: "word_count ''no acute findings'' = 3" by (simp add: word_count_def isspace_def)
  have c: "word_count '' CT chest '' = 2" by (simp add: word_count_def isspace_def)
  have r: "round53 (round53 3 * 5854679515581645) = 17564038546744936"
    by (simp add: round53_def round_grid_def shift53.simps Let_def)
  have le: "count_tokens_estimate ''CT  chest'' \<le> count_tokens_estimate ''no acute findings''"
    using count_tokens_estimate_words [of _ "''CT  chest''" "''no acute findings''"] a b
    by simp
  have eq: "count_tokens_estimate ''CT  chest'' = count_tokens_estimate '' CT chest ''"
    using count_tokens_estimate_words [of _ "''CT  chest''" "'' CT chest ''"] a c
    by simp
  have v: "count_tokens_estimate ''no acute findings'' = 17564038546744936 / 2 ^ 52"
    using count_tokens_estimate_words [of "''no acute findings''"] b r
    by (simp only:)
  from a b c le eq v show ?thesis by simp
qed

text \<open>
  C2. The token check maps an estimate to exactly one of three levels: error above
  100000, warning above 50000 and up to 100000, success otherwise; 125000 gives the
  error level. A submission whose estimate is above 120000 is blocked and sends no
  request to the API; one with an estimate of at most 120000 sends the request.
\<close>

theorem token_check_levels:
  "(token_check est = St_error \<longleftrightarrow> est > 100000)
   \<and> (token_check est = St_warning \<longleftrightarrow> 50000 < est \<and> est \<le> 100000)
   \<and> (token_check est = St_success \<longleftrightarrow> est \<le> 50000)
   \<and> token_check 125000 = St_error
   \<and> (submission_handler e st submit key study history findings = Inr (Some (sess, g)) \<longrightarrow>
        (count_tokens_estimate (prompt_used sess) > 120000 \<longrightarrow> g = Blocked)
        \<and> (count_tokens_estimate (prompt_used sess) \<le> 120000 \<longrightarrow>
             g = ApiCall (prompt_used sess) (user_prompt study history findings)))"
  by (auto simp: token_check_def submission_handler_def Let_def
           split: if_splits sum.splits json_value.splits)

theorem token_check_levels_witness:
  "submission_handler \<lparr>DOCX_AVAILABLE = True, DOCX2TXT_AVAILABLE = True\<rparr>
     \<lparr>PROMPTS_FILE = Parsed (JDict [''CT Chest'' \<mapsto> JStr (concat (replicate 100000 ''w ''))]),
      documents = Map.empty\<rparr> True ''sk-test'' ''CT Chest'' [] ''Nodule.''
   = Inr (Some (\<lparr>document_used = [], prompt_used = concat (replicate 100000 ''w '')\<rparr>, Blocked))
   \<and> count_tokens_estimate (concat (replicate 100000 ''w '')) = 130000"
proof -
  let ?big = "concat (replicate 100000 ''w '')"
  let ?st = "\<lparr>PROMPTS_FILE = Parsed (JDict [''CT Chest'' \<mapsto> JStr ?big]), documents = Map.empty\<rparr>"
  let ?e = "\<lparr>DOCX_AVAILABLE = True, DOCX2TXT_AVAILABLE = True\<rparr>"
  let ?sess = "\<lparr>document_used = [], prompt_used = ?big\<rparr>"
  let ?g = "if count_tokens_estimate ?big > 120000 then Blocked
            else ApiCall ?big (user_prompt ''CT Chest'' [] ''Nodule.'')"
  have est: "count_tokens_estimate ?big = 130000"
    unfolding count_tokens_estimate_def py_split_replicate length_replicate
    by (simp add: round53_def round_grid_def shift53.simps Let_def)
  have key: "''sk-test'' \<noteq> []" by simp
  have tmpl: "get_study_prompt ?st ''CT Chest'' = Inr (JStr ?big)"
    unfolding get_study_prompt_def load_study_prompts_def by simp
  have nodoc: "\<not> path_exists ?st (get_study_document_path ''CT Chest'')"
    unfolding path_exists_def by simp
  have run: "submission_handler ?e ?st True ''sk-test'' ''CT Chest'' [] ''Nodule.'' = Inr (Some (?sess, ?g))"
    unfolding submission_handler_no_document [OF key tmpl nodoc] system_prompt_replicate ..
  have big: "count_tokens_estimate (prompt_used ?sess) > 120000"
    unfolding session.simps est by simp
  from token_check_levels [of _ ?e ?st True "''sk-test''" "''CT Chest''" "[]" "''Nodule.''" ?sess ?g]
    run big
  have "?g = Blocked" by blast
  with run est show ?thesis by (simp only:)
qed

text \<open>
  C4 (as amended). Two study names get the same document path exactly when they have
  the same length and agree at every position, except where both have one of the
  characters slash, space and underscore. So the path is injective on the names that
  hold neither a slash nor a space.
\<close>

theorem get_study_document_path_eq_iff:
  "(get_study_document_path a = get_study_document_path b \<longleftrightarrow>
      length a = length b \<and>
      (\<forall>i<length a. a ! i = b ! i \<or>
         (a ! i \<in> {CHR ''/'', CHR '' '', CHR ''_''} \<and> b ! i \<in> {CHR ''/'', CHR '' '', CHR ''_''})))
   \<and> (list_all (\<lambda>c. c \<noteq> CHR ''/'' \<and> c \<noteq> CHR '' '') a
        \<and> list_all (\<lambda>c. c \<noteq> CHR ''/'' \<and> c \<noteq> CHR '' '') b
        \<longrightarrow> (get_study_document_path a = get_study_document_path b \<longleftrightarrow> a = b))"
proof (intro conjI impI)
  let ?san = "\<lambda>c. if c = CHR ''/'' \<or> c = CHR '' '' then CHR ''_'' else c"
  have path: "get_study_document_path a = get_study_document_path b \<longleftrightarrow> map ?san a = map ?san b"
    for a b
    by (simp add: get_study_document_path_def safe_name_map)
  show "get_study_document_path a = get_study_document_path b \<longleftrightarrow>
      length a = length b \<and>
      (\<forall>i<length a. a ! i = b ! i \<or>
         (a ! i \<in> {CHR ''/'', CHR '' '', CHR ''_''} \<and> b ! i \<in> {CHR ''/'', CHR '' '', CHR ''_''}))"
  proof -
    have "map ?san a = map ?san b \<longleftrightarrow>
      length a = length b \<and>
      (\<forall>i<length a. a ! i = b ! i \<or>
         (a ! i \<in> {CHR ''/'', CHR '' '', CHR ''_''} \<and> b ! i \<in> {CHR ''/'', CHR '' '', CHR ''_''}))"
      by (auto simp: list_eq_iff_nth_eq split: if_splits)
    with path show ?thesis by simp
  qed
  assume "list_all (\<lambda>c. c \<noteq> CHR ''/'' \<and> c \<noteq> CHR '' '') a
        \<and> list_all (\<lambda>c. c \<noteq> CHR ''/'' \<and> c \<noteq> CHR '' '') b"
  then have "map ?san a = a" "map ?san b = b"
    by (auto simp: list_all_iff map_idI)
  then show "get_study_document_path a = get_study_document_path b \<longleftrightarrow> a = b"
    unfolding path by simp
qed

theorem get_study_document_path_eq_iff_witness:
  "get_study_document_path ''MRCP'' \<noteq> get_study_document_path ''CTA''
   \<and> get_study_document_path ''MRCP'' = ''config/study_documents/MRCP.docx''"
proof -
  have h: "list_all (\<lambda>c. c \<noteq> CHR ''/'' \<and> c \<noteq> CHR '' '') ''MRCP''
        \<and> list_all (\<lambda>c. c \<noteq> CHR ''/'' \<and> c \<noteq> CHR '' '') ''CTA''" by simp
  have ne: "''MRCP'' \<noteq> ''CTA''" by simp
  have v: "get_study_document_path ''MRCP'' = ''config/study_documents/MRCP.docx''"
    by (simp add: get_study_document_path_def safe_name_map)
  from get_study_document_path_eq_iff [of "''MRCP''" "''CTA''"] h ne v show ?thesis by blast
qed

text \<open>
  C4 as stated fails: the study names \<open>CT Abdomen/Pelvis\<close> (one of the default studies)
  and \<open>CT Abdomen Pelvis\<close> are distinct and get the same document path.
\<close>

theorem get_study_document_path_collision:
  "''CT Abdomen/Pelvis'' \<noteq> ''CT Abdomen Pelvis''
   \<and> get_study_document_path ''CT Abdomen/Pelvis'' = get_study_document_path ''CT Abdomen Pelvis''"
  by (simp add: get_study_document_path_def safe_name_map)

text \<open>
  C5. The code at a table row of two blank cells: the row is not skipped, it is
  rendered as the bare delimiter. Only the joined text is tested for emptiness, and
  with two or more cells it holds the delimiter.
\<close>

theorem render_row_blank_cells:
  "render_row ['''', ''  ''] = ['' | '']
   \<and> render_table 0 [[''Size'', ''Action''], ['''', ''  '']] =
       [''\<newline>[Table 1]'', ''Size | Action'', '' | '', []]"
  by (simp add: render_row_def render_table_def py_strip_def isspace_def str_nat.simps)

text \<open>
  C7 (as amended). For a study name without an entry in the prompt record file, the
  file being absent, unparseable or a mapping without that name, \<open>get_study_prompt\<close>
  returns exactly the default template.
\<close>

theorem get_study_prompt_default:
  assumes "PROMPTS_FILE st = Missing \<or> PROMPTS_FILE st = Unparseable
           \<or> (\<exists>prompts. PROMPTS_FILE st = Parsed (JDict prompts) \<and> prompts study_name = None)"
  shows "get_study_prompt st study_name = Inr (JStr DEFAULT_PROMPT)"
  using assms by (auto simp: get_study_prompt_def load_study_prompts_def)

theorem get_study_prompt_default_witness:
  "get_study_prompt \<lparr>PROMPTS_FILE = Missing, documents = Map.empty\<rparr> ''CT Chest''
     = Inr (JStr DEFAULT_PROMPT)
   \<and> get_study_prompt \<lparr>PROMPTS_FILE = Unparseable, documents = Map.empty\<rparr> ''CT Chest''
     = Inr (JStr DEFAULT_PROMPT)
   \<and> get_study_prompt
       \<lparr>PROMPTS_FILE = Parsed (JDict [''MRI Brain'' \<mapsto> JStr ''Report: {document_content}'']),
        documents = Map.empty\<rparr> ''CT Chest''
     = Inr (JStr DEFAULT_PROMPT)"
proof -
  have "[''MRI Brain'' \<mapsto> JStr ''Report: {document_content}''] ''CT Chest'' = None"
    by simp
  then show ?thesis
    using
      get_study_prompt_default [of "\<lparr>PROMPTS_FILE = Missing, documents = Map.empty\<rparr>" "''CT Chest''"]
      get_study_prompt_default [of "\<lparr>PROMPTS_FILE = Unparseable, documents = Map.empty\<rparr>" "''CT Chest''"]
      get_study_prompt_default [of "\<lparr>PROMPTS_FILE = Parsed (JDict [''MRI Brain'' \<mapsto> JStr ''Report: {document_content}'']),
        documents = Map.empty\<rparr>" "''CT Chest''"]
    by simp
qed

text \<open>
  C7 as stated fails: when the prompt record file holds JSON that is no mapping (a
  list, a number, null), no study name has an entry in it, and \<open>get_study_prompt\<close> does
  not return the default template: \<open>prompts.get\<close> raises AttributeError.
\<close>

theorem get_study_prompt_not_a_mapping:
  "get_study_prompt \<lparr>PROMPTS_FILE = Parsed JNonDict, documents = Map.empty\<rparr> ''CT Chest''
     = Inl AttributeError
   \<and> get_study_prompt \<lparr>PROMPTS_FILE = Parsed JNonDict, documents = Map.empty\<rparr> ''CT Chest''
     \<noteq> Inr (JStr DEFAULT_PROMPT)"
  by (simp add: get_study_prompt_def load_study_prompts_def)

text \<open>
  C8. After a successful \<open>save_study_prompt\<close> of the template P for the study S,
  \<open>get_study_prompt\<close> returns P for S, and for every other study what it returned
  before the save.
\<close>

theorem save_study_prompt_frame:
  assumes "save_study_prompt w st S P = Inr (True, st')"
  shows "get_study_prompt st' S = Inr (JStr P)
         \<and> (\<forall>T. T \<noteq> S \<longrightarrow> get_study_prompt st' T = get_study_prompt st T)"
  using assms
  by (auto simp: save_study_prompt_def get_study_prompt_def load_study_prompts_def
           split: json_top.splits write_outcome.splits prompts_file_state.splits)

theorem save_study_prompt_frame_witness:
  "save_study_prompt WriteOk
      \<lparr>PROMPTS_FILE = Parsed (JDict [''MRI Brain'' \<mapsto> JStr ''Report: {document_content}'']),
       documents = Map.empty\<rparr> ''CT Chest'' ''Follow {document_content}''
    = Inr (True,
      \<lparr>PROMPTS_FILE = Parsed (JDict [''MRI Brain'' \<mapsto> JStr ''Report: {document_content}'',
                                     ''CT Chest'' \<mapsto> JStr ''Follow {document_content}'']),
       documents = Map.empty\<rparr>)
   \<and> get_study_prompt
      \<lparr>PROMPTS_FILE = Parsed (JDict [''MRI Brain'' \<mapsto> JStr ''Report: {document_content}'',
                                     ''CT Chest'' \<mapsto> JStr ''Follow {document_content}'']),
       documents = Map.empty\<rparr> ''CT Chest'' = Inr (JStr ''Follow {document_content}'')
   \<and> get_study_prompt
      \<lparr>PROMPTS_FILE = Parsed (JDict [''MRI Brain'' \<mapsto> JStr ''Report: {document_content}'',
                                     ''CT Chest'' \<mapsto> JStr ''Follow {document_content}'']),
       documents = Map.empty\<rparr> ''MRI Brain'' = Inr (JStr ''Report: {document_content}'')"
proof -
  let ?st = "\<lparr>PROMPTS_FILE = Parsed (JDict [''MRI Brain'' \<mapsto> JStr ''Report: {document_content}'']),
       documents = Map.empty\<rparr>"
  let ?st' = "\<lparr>PROMPTS_FILE = Parsed (JDict [''MRI Brain'' \<mapsto> JStr ''Report: {document_content}'',
                                     ''CT Chest'' \<mapsto> JStr ''Follow {document_content}'']),
       documents = Map.empty\<rparr>"
  have h: "save_study_prompt WriteOk ?st ''CT Chest'' ''Follow {document_content}'' = Inr (True, ?st')"
    by (simp add: save_study_prompt_def load_study_prompts_def)
  have old: "get_study_prompt ?st ''MRI Brain'' = Inr (JStr ''Report: {document_content}'')"
    by (simp add: get_study_prompt_def load_study_prompts_def)
  have ne: "''MRI Brain'' \<noteq> ''CT Chest''" by simp
  from save_study_prompt_frame [OF h] old ne h show ?thesis by simp
qed

text \<open>
  C9. After a successful \<open>save_study_document\<close> for the study S the document path of S
  exists, and after a successful removal it does not.
\<close>

theorem document_exists_roundtrip:
  "(save_study_document w st S uploaded_file = (True, st')
      \<longrightarrow> path_exists st' (get_study_document_path S))
   \<and> (remove_document permitted st2 S = (True, st2')
      \<longrightarrow> \<not> path_exists st2' (get_study_document_path S))"
  by (auto simp: save_study_document_def remove_document_def unlink_def path_exists_def Let_def
           split: write_outcome.splits if_splits sum.splits)

theorem document_exists_roundtrip_witness:
  "save_study_document WriteOk \<lparr>PROMPTS_FILE = Missing, documents = Map.empty\<rparr> ''CT Chest''
       \<lparr>docx2txt_process = Some ''Measure nodules >6mm.'', DocxDocument = None\<rparr>
     = (True, \<lparr>PROMPTS_FILE = Missing, documents =
          [''config/study_documents/CT_Chest.docx'' \<mapsto>
             \<lparr>docx2txt_process = Some ''Measure nodules >6mm.'', DocxDocument = None\<rparr>]\<rparr>)
   \<and> path_exists \<lparr>PROMPTS_FILE = Missing, documents =
          [''config/study_documents/CT_Chest.docx'' \<mapsto>
             \<lparr>docx2txt_process = Some ''Measure nodules >6mm.'', DocxDocument = None\<rparr>]\<rparr>
        (get_study_document_path ''CT Chest'')
   \<and> remove_document True \<lparr>PROMPTS_FILE = Missing, documents =
          [''config/study_documents/CT_Chest.docx'' \<mapsto>
             \<lparr>docx2txt_process = Some ''Measure nodules >6mm.'', DocxDocument = None\<rparr>]\<rparr>
        ''CT Chest''
     = (True, \<lparr>PROMPTS_FILE = Missing, documents = Map.empty\<rparr>)
   \<and> \<not> path_exists \<lparr>PROMPTS_FILE = Missing, documents = Map.empty\<rparr>
        (get_study_document_path ''CT Chest'')"
proof -
  let ?f = "\<lparr>docx2txt_process = Some ''Measure nodules >6mm.'', DocxDocument = None\<rparr>"
  let ?st0 = "\<lparr>PROMPTS_FILE = Missing, documents = Map.empty\<rparr>"
  let ?st1 = "\<lparr>PROMPTS_FILE = Missing, documents = [''config/study_documents/CT_Chest.docx'' \<mapsto> ?f]\<rparr>"
  have sv: "save_study_document WriteOk ?st0 ''CT Chest'' ?f = (True, ?st1)"
    by (simp add: save_study_document_def path_CT_Chest)
  have rm: "remove_document True ?st1 ''CT Chest'' = (True, ?st0)"
    by (simp add: remove_document_def unlink_def path_exists_def path_CT_Chest)
  from document_exists_roundtrip [of WriteOk ?st0 "''CT Chest''" ?f ?st1 True ?st1 ?st0] sv rm
  show ?thesis by simp
qed

text \<open>
  C3. A submission for a study without a custom prompt (\<open>get_study_prompt\<close> gives the
  default template) and without a document file calls the API with the default
  template in which the placeholder is replaced by the notice
  \<open>No reference document available for this study type.\<close>
\<close>

theorem submission_default_prompt_no_document:
  assumes "openai_api_key \<noteq> []"
    and "get_study_prompt st study_type = Inr (JStr DEFAULT_PROMPT)"
    and "\<not> path_exists st (get_study_document_path study_type)"
  shows "submission_handler e st True openai_api_key study_type history findings =
      Inr (Some (\<lparr>document_used = [],
                  prompt_used = system_prompt DEFAULT_PROMPT
                    ''No reference document available for this study type.''\<rparr>,
                 ApiCall (system_prompt DEFAULT_PROMPT
                    ''No reference document available for this study type.'')
                   (user_prompt study_type history findings)))
    \<and> system_prompt DEFAULT_PROMPT ''No reference document available for this study type.'' =
      ''You are an expert radiologist creating a concise radiology impression section following RCR 2018 standards.\<newline>'' @
      ''\<newline>'' @
      ''CRITICAL INSTRUCTIONS:\<newline>'' @
      ''1. You MUST follow ALL steps, protocols, and guidelines mentioned in the REFERENCE DOCUMENT below\<newline>'' @
      ''2. Read the ENTIRE reference document carefully before generating the impression\<newline>'' @
      ''3. Apply every relevant checklist, measurement standard, and reporting requirement from the document\<newline>'' @
      ''4. If the document specifies a structure or format, follow it exactly\<newline>'' @
      ''5. If the document mentions specific terminology or classifications, use them\<newline>'' @
      ''\<newline>'' @
      ''Generate the impression as exactly 3-4 bullet points:\<newline>'' @
      ''- Summarize key findings following document protocols\<newline>'' @
      ''- State primary diagnosis or differential as per document guidelines\<newline>'' @
      ''- Include any measurements or specifics required by the document\<newline>'' @
      ''\<newline>'' @
      ''Use clear, standardized terminology as specified in the reference document.\<newline>'' @
      ''\<newline>'' @
      ''---REFERENCE DOCUMENT START---\<newline>'' @
      ''No reference document available for this study type.\<newline>'' @
      ''---REFERENCE DOCUMENT END---\<newline>'' @
      ''\<newline>'' @
      ''Now generate the impression following ALL guidelines above.''"
proof
  let ?sp = "system_prompt DEFAULT_PROMPT ''No reference document available for this study type.''"
  have "count_tokens_estimate ?sp = 854783209274920192 / 2 ^ 52"
    unfolding count_tokens_estimate_def length_py_split default_system_prompt_words
    by (simp add: round53_def round_grid_def shift53.simps Let_def)
  then have small: "\<not> count_tokens_estimate ?sp > 120000" by simp
  show "submission_handler e st True openai_api_key study_type history findings =
      Inr (Some (\<lparr>document_used = [], prompt_used = ?sp\<rparr>,
                 ApiCall ?sp (user_prompt study_type history findings)))"
    unfolding submission_handler_no_document [OF assms] using small by (simp only: if_False)
next
  show "system_prompt DEFAULT_PROMPT ''No reference document available for this study type.'' =
      ''You are an expert radiologist creating a concise radiology impression section following RCR 2018 standards.\<newline>'' @
      ''\<newline>'' @
      ''CRITICAL INSTRUCTIONS:\<newline>'' @
      ''1. You MUST follow ALL steps, protocols, and guidelines mentioned in the REFERENCE DOCUMENT below\<newline>'' @
      ''2. Read the ENTIRE reference document carefully before generating the impression\<newline>'' @
      ''3. Apply every relevant checklist, measurement standard, and reporting requirement from the document\<newline>'' @
      ''4. If the document specifies a structure or format, follow it exactly\<newline>'' @
      ''5. If the document mentions specific terminology or classifications, use them\<newline>'' @
      ''\<newline>'' @
      ''Generate the impression as exactly 3-4 bullet points:\<newline>'' @
      ''- Summarize key findings following document protocols\<newline>'' @
      ''- State primary diagnosis or differential as per document guidelines\<newline>'' @
      ''- Include any measurements or specifics required by the document\<newline>'' @
      ''\<newline>'' @
      ''Use clear, standardized terminology as specified in the reference document.\<newline>'' @
      ''\<newline>'' @
      ''---REFERENCE DOCUMENT START---\<newline>'' @
      ''No reference document available for this study type.\<newline>'' @
      ''---REFERENCE DOCUMENT END---\<newline>'' @
      ''\<newline>'' @
      ''Now generate the impression following ALL guidelines above.''"
    unfolding system_prompt_DEFAULT_PROMPT by simp
qed

theorem submission_default_prompt_no_document_witness:
  "submission_handler \<lparr>DOCX_AVAILABLE = True, DOCX2TXT_AVAILABLE = True\<rparr>
      \<lparr>PROMPTS_FILE = Missing, documents = Map.empty\<rparr>
      True ''sk-test'' ''CT Chest'' [] ''Nodule.'' =
    Inr (Some (\<lparr>document_used = [],
                prompt_used = system_prompt DEFAULT_PROMPT
                  ''No reference document available for this study type.''\<rparr>,
               ApiCall (system_prompt DEFAULT_PROMPT
                  ''No reference document available for this study type.'')
                 (user_prompt ''CT Chest'' [] ''Nodule.'')))"
proof -
  let ?st = "\<lparr>PROMPTS_FILE = Missing, documents = Map.empty\<rparr>"
  have key: "''sk-test'' \<noteq> []" by simp
  have tmpl: "get_study_prompt ?st ''CT Chest'' = Inr (JStr DEFAULT_PROMPT)"
    by (simp add: get_study_prompt_def load_study_prompts_def)
  have nodoc: "\<not> path_exists ?st (get_study_document_path ''CT Chest'')"
    by (simp add: path_exists_def)
  from submission_default_prompt_no_document [OF key tmpl nodoc]
  show ?thesis by (rule conjunct1)
qed

text \<open>
  C10. When the document file of the study exists and extraction fails or gives the
  empty text, the system prompt is the template with the placeholder replaced by the
  empty string. The notice \<open>No reference document available for this study type.\<close> is
  put in when the file is absent, and only then: whenever the file exists, what
  replaces the placeholder is the result of the extraction, the empty string when the
  extraction fails.
\<close>

theorem extraction_failure_empty_document:
  assumes "openai_api_key \<noteq> []"
    and "get_study_prompt st study_type = Inr (JStr template)"
  shows "(documents st (get_study_document_path study_type) = Some f
          \<and> (extract_content e f = Inr [] \<or> (\<exists>err. extract_content e f = Inl err)) \<longrightarrow>
          submission_handler e st True openai_api_key study_type history findings =
            Inr (Some (\<lparr>document_used = [], prompt_used = system_prompt template []\<rparr>,
                       if count_tokens_estimate (system_prompt template []) > 120000 then Blocked
                       else ApiCall (system_prompt template [])
                              (user_prompt study_type history findings))))
       \<and> (documents st (get_study_document_path study_type) = None \<longrightarrow>
          submission_handler e st True openai_api_key study_type history findings =
            Inr (Some (\<lparr>document_used = [],
                        prompt_used = system_prompt template
                          ''No reference document available for this study type.''\<rparr>,
                       if count_tokens_estimate (system_prompt template
                          ''No reference document available for this study type.'') > 120000
                       then Blocked
                       else ApiCall (system_prompt template
                              ''No reference document available for this study type.'')
                              (user_prompt study_type history findings))))
       \<and> (documents st (get_study_document_path study_type) = Some f \<longrightarrow>
          submission_handler e st True openai_api_key study_type history findings =
            Inr (Some (\<lparr>document_used =
                          (case extract_content e f of Inl err \<Rightarrow> [] | Inr content \<Rightarrow> content),
                        prompt_used = system_prompt template
                          (case extract_content e f of Inl err \<Rightarrow> [] | Inr content \<Rightarrow> content)\<rparr>,
                       if count_tokens_estimate (system_prompt template
                          (case extract_content e f of Inl err \<Rightarrow> [] | Inr content \<Rightarrow> content))
                            > 120000
                       then Blocked
                       else ApiCall (system_prompt template
                              (case extract_content e f of Inl err \<Rightarrow> [] | Inr content \<Rightarrow> content))
                              (user_prompt study_type history findings))))"
proof (intro conjI impI)
  assume h: "documents st (get_study_document_path study_type) = Some f
          \<and> (extract_content e f = Inr [] \<or> (\<exists>err. extract_content e f = Inl err))"
  then have ex: "path_exists st (get_study_document_path study_type)"
    by (simp add: path_exists_def)
  from h have "load_document_content e st (get_study_document_path study_type) = []"
    by (auto simp: load_document_content_def)
  then show "submission_handler e st True openai_api_key study_type history findings =
            Inr (Some (\<lparr>document_used = [], prompt_used = system_prompt template []\<rparr>,
                       if count_tokens_estimate (system_prompt template []) > 120000 then Blocked
                       else ApiCall (system_prompt template [])
                              (user_prompt study_type history findings)))"
    unfolding submission_handler_document [OF assms ex] by simp
next
  assume "documents st (get_study_document_path study_type) = None"
  then have "\<not> path_exists st (get_study_document_path study_type)"
    by (simp add: path_exists_def)
  then show "submission_handler e st True openai_api_key study_type history findings =
            Inr (Some (\<lparr>document_used = [],
                        prompt_used = system_prompt template
                          ''No reference document available for this study type.''\<rparr>,
                       if count_tokens_estimate (system_prompt template
                          ''No reference document available for this study type.'') > 120000
                       then Blocked
                       else ApiCall (system_prompt template
                              ''No reference document available for this study type.'')
                              (user_prompt study_type history findings)))"
    by (rule submission_handler_no_document [OF assms])
next
  assume h: "documents st (get_study_document_path study_type) = Some f"
  then have ex: "path_exists st (get_study_document_path study_type)"
    by (simp add: path_exists_def)
  from h have "load_document_content e st (get_study_document_path study_type) =
      (case extract_content e f of Inl err \<Rightarrow> [] | Inr content \<Rightarrow> content)"
    by (simp add: load_document_content_def)
  then show "submission_handler e st True openai_api_key study_type history findings =
            Inr (Some (\<lparr>document_used =
                          (case extract_content e f of Inl err \<Rightarrow> [] | Inr content \<Rightarrow> content),
                        prompt_used = system_prompt template
                          (case extract_content e f of Inl err \<Rightarrow> [] | Inr content \<Rightarrow> content)\<rparr>,
                       if count_tokens_estimate (system_prompt template
                          (case extract_content e f of Inl err \<Rightarrow> [] | Inr content \<Rightarrow> content))
                            > 120000
                       then Blocked
                       else ApiCall (system_prompt template
                              (case extract_content e f of Inl err \<Rightarrow> [] | Inr content \<Rightarrow> content))
                              (user_prompt study_type history findings)))"
    unfolding submission_handler_document [OF assms ex] by (simp only:)
qed

theorem extraction_failure_empty_document_witness:
  "extract_content \<lparr>DOCX_AVAILABLE = True, DOCX2TXT_AVAILABLE = True\<rparr>
      \<lparr>docx2txt_process = None, DocxDocument = None\<rparr> = Inl LibraryError
   \<and> submission_handler \<lparr>DOCX_AVAILABLE = True, DOCX2TXT_AVAILABLE = True\<rparr>
      \<lparr>PROMPTS_FILE = Parsed (JDict [''CT Chest'' \<mapsto> JStr ''Rules: {document_content} End.'']),
       documents = [''config/study_documents/CT_Chest.docx'' \<mapsto>
                      \<lparr>docx2txt_process = None, DocxDocument = None\<rparr>]\<rparr>
      True ''sk-test'' ''CT Chest'' [] ''Nodule.'' =
     Inr (Some (\<lparr>document_used = [], prompt_used = ''Rules:  End.''\<rparr>,
                ApiCall ''Rules:  End.'' (user_prompt ''CT Chest'' [] ''Nodule.'')))
   \<and> extract_content \<lparr>DOCX_AVAILABLE = False, DOCX2TXT_AVAILABLE = True\<rparr>
      \<lparr>docx2txt_process = Some ''  '', DocxDocument = None\<rparr> = Inr []
   \<and> submission_handler \<lparr>DOCX_AVAILABLE = True, DOCX2TXT_AVAILABLE = True\<rparr>
      \<lparr>PROMPTS_FILE = Parsed (JDict [''CT Chest'' \<mapsto> JStr ''Rules: {document_content} End.'']),
       documents = [''config/study_documents/CT_Chest.docx'' \<mapsto>
                      \<lparr>docx2txt_process = Some '' Measure nodules. '', DocxDocument = None\<rparr>]\<rparr>
      True ''sk-test'' ''CT Chest'' [] ''Nodule.'' =
     Inr (Some (\<lparr>document_used = ''Measure nodules.'',
                 prompt_used = ''Rules: Measure nodules. End.''\<rparr>,
                ApiCall ''Rules: Measure nodules. End.'' (user_prompt ''CT Chest'' [] ''Nodule.'')))"
proof -
  let ?e = "\<lparr>DOCX_AVAILABLE = True, DOCX2TXT_AVAILABLE = True\<rparr>"
  let ?f = "\<lparr>docx2txt_process = None, DocxDocument = None\<rparr>"
  let ?g = "\<lparr>docx2txt_process = Some '' Measure nodules. '', DocxDocument = None\<rparr>"
  let ?p = "Parsed (JDict [''CT Chest'' \<mapsto> JStr ''Rules: {document_content} End.''])"
  let ?st = "\<lparr>PROMPTS_FILE = ?p, documents = [''config/study_documents/CT_Chest.docx'' \<mapsto> ?f]\<rparr>"
  let ?st2 = "\<lparr>PROMPTS_FILE = ?p, documents = [''config/study_documents/CT_Chest.docx'' \<mapsto> ?g]\<rparr>"
  have key: "''sk-test'' \<noteq> []" by simp
  have tmpl: "get_study_prompt ?st ''CT Chest'' = Inr (JStr ''Rules: {document_content} End.'')"
    by (simp add: get_study_prompt_def load_study_prompts_def)
  have tmpl2: "get_study_prompt ?st2 ''CT Chest'' = Inr (JStr ''Rules: {document_content} End.'')"
    by (simp add: get_study_prompt_def load_study_prompts_def)
  have fail: "extract_content ?e ?f = Inl LibraryError"
    by (simp add: extract_content_def)
  have good: "extract_content ?e ?g = Inr ''Measure nodules.''"
    by (simp add: extract_content_def py_strip_def isspace_def)
  have doc: "documents ?st (get_study_document_path ''CT Chest'') = Some ?f"
    by (simp add: path_CT_Chest)
  have doc2: "documents ?st2 (get_study_document_path ''CT Chest'') = Some ?g"
    by (simp add: path_CT_Chest)
  have sp: "system_prompt ''Rules: {document_content} End.'' [] = ''Rules:  End.''"
    by (simp add: system_prompt_def py_replace_def startswith_def)
  have sp2: "system_prompt ''Rules: {document_content} End.'' ''Measure nodules.'' =
      ''Rules: Measure nodules. End.''"
    by (simp add: system_prompt_def py_replace_def startswith_def)
  have est: "\<not> count_tokens_estimate ''Rules:  End.'' > 120000"
    by (simp add: count_tokens_estimate_def py_split_Nil py_split_space py_split_word isspace_def
          round53_def round_grid_def shift53.simps Let_def)
  have est2: "\<not> count_tokens_estimate ''Rules: Measure nodules. End.'' > 120000"
    by (simp add: count_tokens_estimate_def py_split_Nil py_split_space py_split_word isspace_def
          round53_def round_grid_def shift53.simps Let_def)
  have empty: "extract_content \<lparr>DOCX_AVAILABLE = False, DOCX2TXT_AVAILABLE = True\<rparr>
      \<lparr>docx2txt_process = Some ''  '', DocxDocument = None\<rparr> = Inr []"
    by (simp add: extract_content_def py_strip_def isspace_def)
  from extraction_failure_empty_document [OF key tmpl, of ?f ?e "[]" "''Nodule.''"] doc fail
  have "submission_handler ?e ?st True ''sk-test'' ''CT Chest'' [] ''Nodule.'' =
     Inr (Some (\<lparr>document_used = [], prompt_used = system_prompt ''Rules: {document_content} End.'' []\<rparr>,
                if count_tokens_estimate (system_prompt ''Rules: {document_content} End.'' []) > 120000
                then Blocked
                else ApiCall (system_prompt ''Rules: {document_content} End.'' [])
                       (user_prompt ''CT Chest'' [] ''Nodule.'')))"
    by blast
  then have one: "submission_handler ?e ?st True ''sk-test'' ''CT Chest'' [] ''Nodule.'' =
     Inr (Some (\<lparr>document_used = [], prompt_used = ''Rules:  End.''\<rparr>,
                ApiCall ''Rules:  End.'' (user_prompt ''CT Chest'' [] ''Nodule.'')))"
    unfolding sp using est by (simp only: if_False)
  from extraction_failure_empty_document [OF key tmpl2, of ?g ?e "[]" "''Nodule.''"] doc2
  have "submission_handler ?e ?st2 True ''sk-test'' ''CT Chest'' [] ''Nodule.'' =
     Inr (Some (\<lparr>document_used =
                   (case extract_content ?e ?g of Inl err \<Rightarrow> [] | Inr content \<Rightarrow> content),
                 prompt_used = system_prompt ''Rules: {document_content} End.''
                   (case extract_content ?e ?g of Inl err \<Rightarrow> [] | Inr content \<Rightarrow> content)\<rparr>,
                if count_tokens_estimate (system_prompt ''Rules: {document_content} End.''
                   (case extract_content ?e ?g of Inl err \<Rightarrow> [] | Inr content \<Rightarrow> content)) > 120000
                then Blocked
                else ApiCall (system_prompt ''Rules: {document_content} End.''
                   (case extract_content ?e ?g of Inl err \<Rightarrow> [] | Inr content \<Rightarrow> content))
                       (user_prompt ''CT Chest'' [] ''Nodule.'')))"
    by blast
  then have two: "submission_handler ?e ?st2 True ''sk-test'' ''CT Chest'' [] ''Nodule.'' =
     Inr (Some (\<lparr>document_used = ''Measure nodules.'',
                 prompt_used = ''Rules: Measure nodules. End.''\<rparr>,
                ApiCall ''Rules: Measure nodules. End.'' (user_prompt ''CT Chest'' [] ''Nodule.'')))"
    unfolding good sum.case sp2 using est2 by (simp only: if_False)
  from fail one empty two show ?thesis by (simp only: simp_thms)
qed

end
